theory Spec2Isabelle
  imports Main "HOL-Library.AList"
begin

section \<open>JavaScript numbers\<close>

text \<open>
  \<open>Dec m e\<close> is the Number that the literal \<open>m * 10 ^ e\<close> denotes, that is, the binary64
  value nearest to it, ties to even: \<open>40.7\<close> is \<open>Dec 407 (- 1)\<close> and \<open>-74\<close> is
  \<open>Dec (- 74) 0\<close>. The program only turns numbers into text and tests them for truth;
  both zeros print as \<open>0\<close> and both are falsy, so they are one value here.
\<close>

datatype jsnum = NaN | PosInfinity | NegInfinity | Dec int int

subsection \<open>Rounding to binary64\<close>

function bit_length :: "int \<Rightarrow> int" where
  "bit_length n = (if n \<le> 0 then 0 else 1 + bit_length (n div 2))"
  by pat_completeness auto
termination
  by (relation "measure nat") auto

declare bit_length.simps [simp del]

function ipow :: "int \<Rightarrow> int \<Rightarrow> int" where
  "ipow b e =
     (if e \<le> 0 then 1
      else if even e then ipow (b * b) (e div 2)
      else b * ipow (b * b) (e div 2))"
  by pat_completeness auto
termination
  by (relation "measure (\<lambda>(b, e). nat e)") auto

declare ipow.simps [simp del]

text \<open>\<open>2 ^ a \<le> num / den\<close>, for a positive fraction.\<close>

definition pow2_le :: "int \<Rightarrow> int \<Rightarrow> int \<Rightarrow> bool" where
  "pow2_le a num den = (if 0 \<le> a then den * ipow 2 a \<le> num else den \<le> num * ipow 2 (- a))"

definition floor_log2 :: "int \<Rightarrow> int \<Rightarrow> int" where
  "floor_log2 num den =
     (let a = bit_length num - bit_length den
      in if pow2_le a num den then a else a - 1)"

text \<open>
  The magnitude of a binary64 value: \<open>Finite M p\<close> is \<open>M * 2 ^ p\<close> with \<open>M < 2 ^ 53\<close>,
  and \<open>p = - 1074\<close> for a subnormal one.
\<close>

datatype binary64 = Zero | Overflow | Finite int int

text \<open>The fraction \<open>num / den\<close> rounded to the nearest binary64 value, ties to even.\<close>

definition round64 :: "int \<Rightarrow> int \<Rightarrow> binary64" where
  "round64 num den =
     (let p = max (floor_log2 num den - 52) (- 1074);
          N = (if p < 0 then num * ipow 2 (- p) else num);
          D = (if p < 0 then den else den * ipow 2 p);
          M0 = N div D;
          r = N mod D;
          M = (if D < 2 * r \<or> (2 * r = D \<and> odd M0) then M0 + 1 else M0)
      in if M = 0 then Zero
         else if 0 \<le> p \<and> ipow 2 1024 \<le> M * ipow 2 p then Overflow
         else if M = ipow 2 53 then Finite (ipow 2 52) (p + 1)
         else Finite M p)"

definition round_decimal :: "int \<Rightarrow> int \<Rightarrow> binary64" where
  "round_decimal n e =
     (if 0 \<le> e then round64 (n * ipow 10 e) 1 else round64 n (ipow 10 (- e)))"

text \<open>
  A number is falsy when it is \<open>NaN\<close> or a zero. A decimal is rounded to zero exactly when
  its magnitude is at most \<open>2 ^ - 1075\<close>, half the least subnormal value.
\<close>

fun falsy_number :: "jsnum \<Rightarrow> bool" where
  "falsy_number NaN = True"
| "falsy_number PosInfinity = False"
| "falsy_number NegInfinity = False"
| "falsy_number (Dec m e) = (m = 0 \<or> (e < 0 \<and> \<bar>m\<bar> * ipow 2 1075 \<le> ipow 10 (- e)))"

subsection \<open>Number to string\<close>

text \<open>\<open>10 ^ b \<le> num / den\<close>, and the \<open>n\<close> with \<open>10 ^ (n - 1) \<le> num / den < 10 ^ n\<close>.\<close>

definition pow10_le :: "int \<Rightarrow> int \<Rightarrow> int \<Rightarrow> bool" where
  "pow10_le b num den = (if 0 \<le> b then den * ipow 10 b \<le> num else den \<le> num * ipow 10 (- b))"

definition decimal_position :: "int \<Rightarrow> int \<Rightarrow> int" where
  "decimal_position num den =
     (let g = (floor_log2 num den * 30103) div 100000
      in if pow10_le (g + 2) num den then g + 3
         else if pow10_le (g + 1) num den then g + 2
         else if pow10_le g num den then g + 1
         else g)"

text \<open>
  \<open>Number::toString\<close> prints the shortest decimal that reads back as the same value, and
  of several the nearest one (ties to the even digit). \<open>candidate M p k\<close> looks at the two
  decimals of \<open>k\<close> digits on either side of \<open>M * 2 ^ p\<close>, as \<open>(s, t)\<close> for \<open>s * 10 ^ t\<close>.
  Seventeen digits always suffice, so the search below never runs out.
\<close>

definition candidate :: "int \<Rightarrow> int \<Rightarrow> int \<Rightarrow> (int \<times> int) option" where
  "candidate M p k =
     (let num = (if p < 0 then M else M * ipow 2 p);
          den = (if p < 0 then ipow 2 (- p) else 1);
          t = decimal_position num den - k;
          N = (if t < 0 then num * ipow 10 (- t) else num);
          D = (if t < 0 then den else den * ipow 10 t);
          lo = N div D;
          r = N mod D;
          lo_ok = (round_decimal lo t = Finite M p);
          hi_ok = (round_decimal (lo + 1) t = Finite M p)
      in if lo_ok \<and> hi_ok then
           (if 2 * r < D \<or> (2 * r = D \<and> even lo) then Some (lo, t) else Some (lo + 1, t))
         else if lo_ok then Some (lo, t)
         else if hi_ok then Some (lo + 1, t)
         else None)"

fun shortest_from :: "nat \<Rightarrow> int \<Rightarrow> int \<Rightarrow> int \<Rightarrow> int \<times> int" where
  "shortest_from 0 M p k = (0, 0)"
| "shortest_from (Suc fuel) M p k =
     (case candidate M p k of
        Some c \<Rightarrow> c
      | None \<Rightarrow> shortest_from fuel M p (k + 1))"

definition shortest :: "int \<Rightarrow> int \<Rightarrow> int \<times> int" where
  "shortest M p = shortest_from 17 M p 1"

definition digit_char :: "int \<Rightarrow> char" where
  "digit_char d = ''0123456789'' ! nat d"

function digits_of :: "int \<Rightarrow> string" where
  "digits_of n = (if n < 10 then [digit_char n] else digits_of (n div 10) @ [digit_char (n mod 10)])"
  by pat_completeness auto
termination
  by (relation "measure nat") auto

declare digits_of.simps [simp del]

text \<open>
  The text of a positive finite number with digits \<open>s\<close> (no trailing zero, \<open>k\<close> of them)
  and decimal point after position \<open>n\<close>.
\<close>

definition render_digits :: "string \<Rightarrow> int \<Rightarrow> string" where
  "render_digits s n =
     (let k = int (length s) in
      if k \<le> n \<and> n \<le> 21 then s @ replicate (nat (n - k)) (CHR ''0'')
      else if 0 < n \<and> n \<le> 21 then take (nat n) s @ ''.'' @ drop (nat n) s
      else if - 6 < n \<and> n \<le> 0 then ''0.'' @ replicate (nat (- n)) (CHR ''0'') @ s
      else
        (let ex = (if 0 \<le> n - 1 then ''+'' else ''-'') @ digits_of \<bar>n - 1\<bar> in
         if k = 1 then s @ ''e'' @ ex
         else take 1 s @ ''.'' @ drop 1 s @ ''e'' @ ex))"

definition strip_trailing_zeros :: "string \<Rightarrow> string" where
  "strip_trailing_zeros ds = rev (dropWhile (\<lambda>c. c = CHR ''0'') (rev ds))"

definition finite_text :: "int \<Rightarrow> int \<Rightarrow> string" where
  "finite_text M p =
     render_digits (strip_trailing_zeros (digits_of (fst (shortest M p))))
       (int (length (digits_of (fst (shortest M p)))) + snd (shortest M p))"

fun binary64_text :: "bool \<Rightarrow> binary64 \<Rightarrow> string" where
  "binary64_text negative Zero = ''0''"
| "binary64_text negative Overflow = (if negative then ''-Infinity'' else ''Infinity'')"
| "binary64_text negative (Finite M p) =
     (if negative then ''-'' @ finite_text M p else finite_text M p)"

fun num_to_string :: "jsnum \<Rightarrow> string" where
  "num_to_string NaN = ''NaN''"
| "num_to_string PosInfinity = ''Infinity''"
| "num_to_string NegInfinity = ''-Infinity''"
| "num_to_string (Dec m e) = binary64_text (m < 0) (round_decimal \<bar>m\<bar> e)"

section \<open>JavaScript values\<close>

text \<open>
  \<open>JObject\<close> is a plain object, given by its own enumerable properties in insertion
  order. \<open>JBuiltin n\<close> is the built-in value that every plain object inherits from
  \<open>Object.prototype\<close> under the name \<open>n\<close>. A string is the byte string of its UTF-8
  form, in which a surrogate that stands alone is kept as the three bytes of its code
  point.
\<close>

datatype jsval =
    JUndefined
  | JNull
  | JBool bool
  | JNum jsnum
  | JStr string
  | JObject "(string \<times> jsval) list"
  | JBuiltin string

text \<open>
  What can be thrown: the program's own \<open>MapsException\<close> with its message, the errors of
  the built-in conversions, and a rejection reason that comes from the host.
\<close>

datatype js_error = MapsException string | TypeError | RangeError | URIError | HostFailure jsval

definition object_prototype_keys :: "string list" where
  "object_prototype_keys =
     [''constructor'', ''hasOwnProperty'', ''isPrototypeOf'', ''propertyIsEnumerable'',
      ''toLocaleString'', ''toString'', ''valueOf'', ''__proto__'',
      ''__defineGetter__'', ''__defineSetter__'', ''__lookupGetter__'', ''__lookupSetter__'']"

text \<open>The operator \<open>k in o\<close> and the property read \<open>o[k]\<close>: both follow the prototype chain.\<close>

definition js_in :: "string \<Rightarrow> (string \<times> jsval) list \<Rightarrow> bool" where
  "js_in k props \<longleftrightarrow> map_of props k \<noteq> None \<or> k \<in> set object_prototype_keys"

definition js_get :: "(string \<times> jsval) list \<Rightarrow> string \<Rightarrow> jsval" where
  "js_get props k =
     (case map_of props k of
        Some v \<Rightarrow> v
      | None \<Rightarrow> if k \<in> set object_prototype_keys then JBuiltin k else JUndefined)"

fun props_of :: "jsval \<Rightarrow> (string \<times> jsval) list" where
  "props_of (JObject ps) = ps"
| "props_of _ = []"

fun js_typeof :: "jsval \<Rightarrow> string" where
  "js_typeof JUndefined = ''undefined''"
| "js_typeof JNull = ''object''"
| "js_typeof (JBool _) = ''boolean''"
| "js_typeof (JNum _) = ''number''"
| "js_typeof (JStr _) = ''string''"
| "js_typeof (JObject _) = ''object''"
| "js_typeof (JBuiltin n) = (if n = ''__proto__'' then ''object'' else ''function'')"

text \<open>ToBoolean: what \<open>!v\<close>, \<open>!!v\<close>, \<open>a && b\<close>, \<open>a || b\<close> and \<open>c ? a : b\<close> test.\<close>

fun truthy :: "jsval \<Rightarrow> bool" where
  "truthy JUndefined = False"
| "truthy JNull = False"
| "truthy (JBool b) = b"
| "truthy (JNum x) = (\<not> falsy_number x)"
| "truthy (JStr s) = (s \<noteq> [])"
| "truthy (JObject _) = True"
| "truthy (JBuiltin _) = True"

definition js_or :: "jsval \<Rightarrow> jsval \<Rightarrow> jsval" where
  "js_or a b = (if truthy a then a else b)"

subsection \<open>ToPrimitive and ToString\<close>

fun is_object :: "jsval \<Rightarrow> bool" where
  "is_object (JObject _) = True"
| "is_object (JBuiltin _) = True"
| "is_object _ = False"

text \<open>
  A built-in of \<open>Object.prototype\<close> called without arguments on the plain object with the
  properties \<open>ps\<close>. The missing argument is \<open>undefined\<close>, hence the property key
  \<open>'undefined'\<close>; \<open>__defineGetter__\<close> and \<open>__defineSetter__\<close> refuse it with a \<open>TypeError\<close>.
\<close>

definition call_plain :: "string \<Rightarrow> (string \<times> jsval) list \<Rightarrow> js_error + jsval" where
  "call_plain n ps =
     (if n = ''toString'' then Inr (JStr ''[object Object]'')
      else if n = ''valueOf'' then Inr (JObject ps)
      else if n = ''constructor'' then Inr (JObject [])
      else if n = ''hasOwnProperty'' \<or> n = ''propertyIsEnumerable'' then
        Inr (JBool (map_of ps ''undefined'' \<noteq> None))
      else if n = ''isPrototypeOf'' then Inr (JBool False)
      else if n = ''__lookupGetter__'' \<or> n = ''__lookupSetter__'' then Inr JUndefined
      else Inl TypeError)"

text \<open>
  \<open>toLocaleString\<close> calls the object's \<open>toString\<close>; when that is \<open>toLocaleString\<close> again
  the calls never end and the engine gives up with a \<open>RangeError\<close>.
\<close>

definition call_builtin :: "string \<Rightarrow> (string \<times> jsval) list \<Rightarrow> js_error + jsval" where
  "call_builtin n ps =
     (if n = ''toLocaleString'' then
        (case js_get ps ''toString'' of
           JBuiltin k \<Rightarrow>
             if k = ''__proto__'' then Inl TypeError
             else if k = ''toLocaleString'' then Inl RangeError
             else call_plain k ps
         | _ \<Rightarrow> Inl TypeError)
      else call_plain n ps)"

text \<open>
  The method \<open>o[name]\<close> called on \<open>o\<close> if it is callable; \<open>None\<close> if it is not. Every
  \<open>JBuiltin\<close> is a function but \<open>__proto__\<close>, which is the prototype object itself.
\<close>

definition call_method :: "(string \<times> jsval) list \<Rightarrow> string \<Rightarrow> (js_error + jsval) option" where
  "call_method ps name =
     (case js_get ps name of
        JBuiltin n \<Rightarrow> if n = ''__proto__'' then None else Some (call_builtin n ps)
      | _ \<Rightarrow> None)"

text \<open>
  OrdinaryToPrimitive with hint string: \<open>toString\<close> first, then \<open>valueOf\<close>; the first
  result that is not an object is taken, and a \<open>TypeError\<close> is thrown when there is none.
\<close>

definition value_of_step :: "(string \<times> jsval) list \<Rightarrow> js_error + jsval" where
  "value_of_step ps =
     (case call_method ps ''valueOf'' of
        Some (Inl e) \<Rightarrow> Inl e
      | Some (Inr r) \<Rightarrow> if is_object r then Inl TypeError else Inr r
      | None \<Rightarrow> Inl TypeError)"

definition to_primitive :: "(string \<times> jsval) list \<Rightarrow> js_error + jsval" where
  "to_primitive ps =
     (case call_method ps ''toString'' of
        Some (Inl e) \<Rightarrow> Inl e
      | Some (Inr r) \<Rightarrow> if is_object r then value_of_step ps else Inr r
      | None \<Rightarrow> value_of_step ps)"

text \<open>The text of a value that is not an object.\<close>

fun primitive_text :: "jsval \<Rightarrow> string" where
  "primitive_text JUndefined = ''undefined''"
| "primitive_text JNull = ''null''"
| "primitive_text (JBool b) = (if b then ''true'' else ''false'')"
| "primitive_text (JNum x) = num_to_string x"
| "primitive_text (JStr s) = s"
| "primitive_text _ = []"

text \<open>
  ToString. The text of a built-in function is that of V8; \<open>constructor\<close> is the
  function \<open>Object\<close>.
\<close>

definition builtin_name :: "string \<Rightarrow> string" where
  "builtin_name n = (if n = ''constructor'' then ''Object'' else n)"

fun to_string :: "jsval \<Rightarrow> js_error + string" where
  "to_string (JObject ps) =
     (case to_primitive ps of Inl e \<Rightarrow> Inl e | Inr r \<Rightarrow> Inr (primitive_text r))"
| "to_string (JBuiltin n) =
     Inr (if n = ''__proto__'' then ''[object Object]''
          else ''function '' @ builtin_name n @ ''() { [native code] }'')"
| "to_string v = Inr (primitive_text v)"

subsection \<open>parseFloat\<close>

text \<open>
  White space and line terminators that \<open>parseFloat\<close> skips at the start of its
  argument, as UTF-8 byte sequences.
\<close>

definition white_space :: "string list" where
  "white_space =
     [[CHR 0x09], [CHR 0x0A], [CHR 0x0B], [CHR 0x0C], [CHR 0x0D], [CHR 0x20],
      [CHR 0xC2, CHR 0xA0], [CHR 0xE1, CHR 0x9A, CHR 0x80],
      [CHR 0xE2, CHR 0x80, CHR 0x80], [CHR 0xE2, CHR 0x80, CHR 0x81],
      [CHR 0xE2, CHR 0x80, CHR 0x82], [CHR 0xE2, CHR 0x80, CHR 0x83],
      [CHR 0xE2, CHR 0x80, CHR 0x84], [CHR 0xE2, CHR 0x80, CHR 0x85],
      [CHR 0xE2, CHR 0x80, CHR 0x86], [CHR 0xE2, CHR 0x80, CHR 0x87],
      [CHR 0xE2, CHR 0x80, CHR 0x88], [CHR 0xE2, CHR 0x80, CHR 0x89],
      [CHR 0xE2, CHR 0x80, CHR 0x8A], [CHR 0xE2, CHR 0x80, CHR 0xA8],
      [CHR 0xE2, CHR 0x80, CHR 0xA9], [CHR 0xE2, CHR 0x80, CHR 0xAF],
      [CHR 0xE2, CHR 0x81, CHR 0x9F], [CHR 0xE3, CHR 0x80, CHR 0x80],
      [CHR 0xEF, CHR 0xBB, CHR 0xBF]]"

definition leading_white_space :: "string \<Rightarrow> nat" where
  "leading_white_space s =
     (case List.find (\<lambda>w. take (length w) s = w) white_space of
        None \<Rightarrow> 0
      | Some w \<Rightarrow> length w)"

text \<open>The second test never holds; it is there for the termination proof.\<close>

function trim_start :: "string \<Rightarrow> string" where
  "trim_start s =
     (if leading_white_space s = 0 \<or> length s < leading_white_space s then s
      else trim_start (drop (leading_white_space s) s))"
  by pat_completeness auto
termination
  by (relation "measure length") auto

declare trim_start.simps [simp del]

definition is_digit :: "char \<Rightarrow> bool" where
  "is_digit c \<longleftrightarrow> c \<in> set ''0123456789''"

definition digits_val :: "string \<Rightarrow> int" where
  "digits_val ds = foldl (\<lambda>a c. 10 * a + (int (of_char c) - 48)) 0 ds"

text \<open>The optional exponent part: \<open>e\<close> or \<open>E\<close>, an optional sign, at least one digit.\<close>

definition exponent_part :: "string \<Rightarrow> int" where
  "exponent_part r =
     (case r of
        [] \<Rightarrow> 0
      | c # cs \<Rightarrow>
          if c = CHR ''e'' \<or> c = CHR ''E'' then
            (case cs of
               [] \<Rightarrow> 0
             | d # ds \<Rightarrow>
                 if d = CHR ''-'' then - digits_val (takeWhile is_digit ds)
                 else if d = CHR ''+'' then digits_val (takeWhile is_digit ds)
                 else digits_val (takeWhile is_digit cs))
          else 0)"

text \<open>
  The Number that the decimal \<open>m * 10 ^ e\<close> is read as: an infinity when it is too large
  for binary64, zero when it is too small.
\<close>

fun rounded_number :: "binary64 \<Rightarrow> int \<Rightarrow> int \<Rightarrow> jsnum" where
  "rounded_number Zero m e = Dec 0 0"
| "rounded_number Overflow m e = (if m < 0 then NegInfinity else PosInfinity)"
| "rounded_number (Finite M p) m e = Dec m e"

definition decimal_number :: "int \<Rightarrow> int \<Rightarrow> jsnum" where
  "decimal_number m e = rounded_number (round_decimal \<bar>m\<bar> e) m e"

text \<open>
  The longest prefix of the trimmed text that is a decimal literal; \<open>NaN\<close> when there
  is none.
\<close>

definition str_decimal :: "string \<Rightarrow> jsnum" where
  "str_decimal s =
     (let neg = (take 1 s = ''-'');
          r = (if take 1 s = ''-'' \<or> take 1 s = ''+'' then drop 1 s else s)
      in
      if take 8 r = ''Infinity'' then (if neg then NegInfinity else PosInfinity)
      else
        (let ip = takeWhile is_digit r;
             r1 = dropWhile is_digit r;
             dot = (take 1 r1 = ''.'');
             fp = (if dot then takeWhile is_digit (drop 1 r1) else []);
             r2 = (if dot then dropWhile is_digit (drop 1 r1) else r1)
         in
         if ip = [] \<and> fp = [] then NaN
         else
           (let m = digits_val (ip @ fp)
            in decimal_number (if neg then - m else m) (exponent_part r2 - int (length fp)))))"

definition parseFloat :: "jsval \<Rightarrow> js_error + jsnum" where
  "parseFloat v =
     (case to_string v of
        Inl e \<Rightarrow> Inl e
      | Inr s \<Rightarrow> Inr (str_decimal (trim_start s)))"

subsection \<open>encodeURIComponent\<close>

text \<open>
  The length of the well-formed UTF-8 sequence at the head of a list of bytes, \<open>0\<close> when
  there is none there. The three bytes of a surrogate are not well-formed.
\<close>

definition continuation :: "nat \<Rightarrow> bool" where
  "continuation b \<longleftrightarrow> 0x80 \<le> b \<and> b \<le> 0xBF"

definition second_byte :: "nat \<Rightarrow> nat \<Rightarrow> bool" where
  "second_byte a b \<longleftrightarrow>
     (if a = 0xE0 then 0xA0 \<le> b \<and> b \<le> 0xBF
      else if a = 0xED then 0x80 \<le> b \<and> b \<le> 0x9F
      else if a = 0xF0 then 0x90 \<le> b \<and> b \<le> 0xBF
      else if a = 0xF4 then 0x80 \<le> b \<and> b \<le> 0x8F
      else continuation b)"

definition utf8_length :: "nat list \<Rightarrow> nat" where
  "utf8_length bs =
     (case bs of
        [] \<Rightarrow> 0
      | a # r \<Rightarrow>
          if a < 0x80 then 1
          else if 0xC2 \<le> a \<and> a \<le> 0xDF then
            (case r of b # _ \<Rightarrow> if continuation b then 2 else 0 | _ \<Rightarrow> 0)
          else if 0xE0 \<le> a \<and> a \<le> 0xEF then
            (case r of
               b # c # _ \<Rightarrow> if second_byte a b \<and> continuation c then 3 else 0
             | _ \<Rightarrow> 0)
          else if 0xF0 \<le> a \<and> a \<le> 0xF4 then
            (case r of
               b # c # d # _ \<Rightarrow>
                 if second_byte a b \<and> continuation c \<and> continuation d then 4 else 0
             | _ \<Rightarrow> 0)
          else 0)"

function well_formed_utf8 :: "nat list \<Rightarrow> bool" where
  "well_formed_utf8 bs =
     (if bs = [] then True
      else if utf8_length bs = 0 then False
      else well_formed_utf8 (drop (utf8_length bs) bs))"
  by pat_completeness auto
termination
  by (relation "measure length") auto

declare well_formed_utf8.simps [simp del]

definition uri_unreserved :: "string" where
  "uri_unreserved =
     ''ABCDEFGHIJKLMNOPQRSTUVWXYZabcdefghijklmnopqrstuvwxyz0123456789-_.!~*()'' @ [CHR 0x27]"

definition hex_digit :: "nat \<Rightarrow> char" where
  "hex_digit d = ''0123456789ABCDEF'' ! d"

definition encode_byte :: "char \<Rightarrow> string" where
  "encode_byte c =
     (if c \<in> set uri_unreserved then [c]
      else [CHR ''%'', hex_digit (of_char c div 16), hex_digit (of_char c mod 16)])"

text \<open>
  Every byte of the UTF-8 form is escaped unless it is unreserved; a string with a lone
  surrogate is refused with a \<open>URIError\<close>.
\<close>

definition encodeURIComponent :: "jsval \<Rightarrow> js_error + string" where
  "encodeURIComponent v =
     (case to_string v of
        Inl e \<Rightarrow> Inl e
      | Inr s \<Rightarrow>
          if well_formed_utf8 (map of_char s) then Inr (concat (map encode_byte s))
          else Inl URIError)"

section \<open>The provider tables\<close>

definition apps :: "string list" where
  "apps = [''apple-maps'', ''google-maps'', ''citymapper'', ''uber'', ''lyft'', ''navigon'',
           ''transit'', ''waze'', ''yandex'', ''moovit'']"

text \<open>\<open>ios\<close> is the module constant \<open>isIOS\<close>, read once from \<open>Platform.OS\<close>.\<close>

definition prefixes :: "bool \<Rightarrow> (string \<times> jsval) list" where
  "prefixes ios =
     [(''apple-maps'', JStr (if ios then ''http://maps.apple.com/'' else ''applemaps://'')),
      (''google-maps'', JStr (if ios then ''comgooglemaps://'' else ''https://maps.google.com/'')),
      (''citymapper'', JStr ''citymapper://''),
      (''uber'', JStr ''uber://''),
      (''lyft'', JStr ''lyft://''),
      (''navigon'', JStr ''navigon://''),
      (''transit'', JStr ''transit://''),
      (''waze'', JStr ''waze://''),
      (''yandex'', JStr ''yandexnavi://''),
      (''moovit'', JStr ''moovit://'')]"

definition titles :: "(string \<times> jsval) list" where
  "titles =
     [(''apple-maps'', JStr ''Apple Maps''),
      (''google-maps'', JStr ''Google Maps''),
      (''citymapper'', JStr ''Citymapper''),
      (''uber'', JStr ''Uber''),
      (''lyft'', JStr ''Lyft''),
      (''navigon'', JStr ''Navigon''),
      (''transit'', JStr ''The Transit App''),
      (''waze'', JStr ''Waze''),
      (''yandex'', JStr ''Yandex.Navi''),
      (''moovit'', JStr ''Moovit'')]"

section \<open>The host platform\<close>

datatype 'a promise = Pending | Resolved 'a | Rejected js_error

text \<open>The promise that \<open>Linking.canOpenURL\<close> returns settles one way or the other.\<close>

datatype probe_outcome = ProbeResolves jsval | ProbeRejects jsval

text \<open>
  A button of \<open>Alert.alert\<close>: its text, the value its \<open>onPress\<close> resolves the choice
  with, and its style.
\<close>

datatype alert_button = AlertButton jsval jsval "string option"

datatype alert_response = ButtonPressed nat | AlertDismissed | AlertUnanswered

text \<open>
  The host, as the program sees it. \<open>showActionSheetWithOptions\<close> takes title, message,
  options and \<open>cancelButtonIndex\<close> and gives the index its callback receives, if it is
  ever called.
\<close>

record platform =
  isIOS :: bool
  canOpenURL :: "jsval \<Rightarrow> probe_outcome"
  showActionSheetWithOptions :: "string \<Rightarrow> string \<Rightarrow> jsval list \<Rightarrow> nat \<Rightarrow> nat option"
  alert :: "string \<Rightarrow> string \<Rightarrow> alert_button list \<Rightarrow> alert_response"
  openURL :: "string \<Rightarrow> jsval promise"

text \<open>The calls the program makes to the host, in order.\<close>

datatype call =
    CanOpenURL jsval
  | ShowActionSheet string string "jsval list" nat
  | AlertAlert string string "alert_button list"
  | OpenURL string

section \<open>isAppInstalled\<close>

definition isAppInstalled :: "platform \<Rightarrow> string \<Rightarrow> bool promise \<times> call list" where
  "isAppInstalled P app =
     (if \<not> js_in app (prefixes (isIOS P)) then (Resolved False, [])
      else
        (let url = js_get (prefixes (isIOS P)) app in
         case canOpenURL P url of
           ProbeResolves result \<Rightarrow> (Resolved (truthy result), [CanOpenURL url])
         | ProbeRejects reason \<Rightarrow> (Resolved False, [CanOpenURL url])))"

section \<open>askAppChoice\<close>

text \<open>
  The \<open>for ... in\<close> loop over the keys of \<open>prefixes\<close>. The executor is an async function:
  were an awaited probe ever rejected or left pending, the loop would stop and the choice
  would never be resolved (\<open>None\<close>).
\<close>

fun probe_loop ::
  "platform \<Rightarrow> string list \<Rightarrow> string list \<Rightarrow> call list \<Rightarrow> string list option \<times> call list" where
  "probe_loop P [] availableApps tr = (Some availableApps, tr)"
| "probe_loop P (app # keys) availableApps tr =
     (case isAppInstalled P app of
        (Resolved avail, tr') \<Rightarrow>
          probe_loop P keys (if avail then availableApps @ [app] else availableApps) (tr @ tr')
      | (_, tr') \<Rightarrow> (None, tr @ tr'))"

text \<open>An array read \<open>xs[i]\<close>: \<open>undefined\<close> past the end.\<close>

definition array_get :: "string list \<Rightarrow> nat \<Rightarrow> jsval" where
  "array_get xs i = (if i < length xs then JStr (xs ! i) else JUndefined)"

text \<open>
  What \<open>askAppChoice\<close> does once the loop is over: resolve at once when fewer than two
  apps are available, else put the question to the user. \<open>tr\<close> holds the calls made so
  far.
\<close>

definition prompt_choice ::
  "platform \<Rightarrow> string \<Rightarrow> string \<Rightarrow> string list \<Rightarrow> call list \<Rightarrow> jsval promise \<times> call list" where
  "prompt_choice P title message availableApps tr =
     (if length availableApps < 2 then (Resolved (js_or (array_get availableApps 0) JNull), tr)
      else if isIOS P then
        (let options = map (js_get titles) availableApps @ [JStr ''Cancel''];
             tr' = tr @ [ShowActionSheet title message options (length options - 1)]
         in case showActionSheetWithOptions P title message options (length options - 1) of
              None \<Rightarrow> (Pending, tr')
            | Some buttonIndex \<Rightarrow>
                if buttonIndex = length options - 1 then (Resolved JNull, tr')
                else (Resolved (array_get availableApps buttonIndex), tr'))
      else
        (let options = map (\<lambda>app. AlertButton (js_get titles app) (JStr app) None) availableApps
                       @ [AlertButton (JStr ''Cancel'') JNull (Some ''cancel'')];
             tr' = tr @ [AlertAlert title message options]
         in case alert P title message options of
              ButtonPressed k \<Rightarrow>
                (if k < length options
                 then (case options ! k of AlertButton _ v _ \<Rightarrow> (Resolved v, tr'))
                 else (Pending, tr'))
            | AlertDismissed \<Rightarrow> (Resolved JNull, tr')
            | AlertUnanswered \<Rightarrow> (Pending, tr')))"

definition askAppChoice :: "platform \<Rightarrow> string \<Rightarrow> string \<Rightarrow> jsval promise \<times> call list" where
  "askAppChoice P title message =
     (case probe_loop P (map fst (prefixes (isIOS P))) [] [] of
        (None, tr) \<Rightarrow> (Pending, tr)
      | (Some availableApps, tr) \<Rightarrow> prompt_choice P title message availableApps tr)"

section \<open>showLocation\<close>

fun js_join :: "string \<Rightarrow> string list \<Rightarrow> string" where
  "js_join sep [] = []"
| "js_join sep [x] = x"
| "js_join sep (x # y # ys) = x @ sep @ js_join sep (y # ys)"

text \<open>The five checks at the head of \<open>showLocation\<close>, in order; \<open>None\<close> when all pass.\<close>

definition validate :: "jsval \<Rightarrow> js_error option" where
  \<open>validate options =
     (if \<not> truthy options \<or> js_typeof options \<noteq> ''object'' then
        Some (MapsException
          ''First parameter of `showLocation` should contain object with options.'')
      else if \<not> js_in ''latitude'' (props_of options) \<or> \<not> js_in ''longitude'' (props_of options) then
        Some (MapsException
          ''First parameter of `showLocation` should contain object with at least keys `latitude` and `longitude`.'')
      else if js_in ''address'' (props_of options) \<and> truthy (js_get (props_of options) ''address'')
              \<and> js_typeof (js_get (props_of options) ''address'') \<noteq> ''string'' then
        Some (MapsException ''Option `address` should be of type `string`.'')
      else if js_in ''title'' (props_of options) \<and> truthy (js_get (props_of options) ''title'')
              \<and> js_typeof (js_get (props_of options) ''title'') \<noteq> ''string'' then
        Some (MapsException ''Option `title` should be of type `string`.'')
      else if js_in ''app'' (props_of options) \<and> truthy (js_get (props_of options) ''app'')
              \<and> js_get (props_of options) ''app'' \<notin> JStr ` set apps then
        Some (MapsException
          (''Option `app` should be undefined, null, or one of the following: "''
             @ js_join ''", "'' apps @ ''".''))
      else None)\<close>

text \<open>
  The property read \<open>v.length\<close>. Only whether it is zero is ever tested, so the bytes of
  a string are counted. For a built-in function it is the number of its parameters.
\<close>

definition builtin_arity :: "string \<Rightarrow> int" where
  "builtin_arity n =
     (if n \<in> set [''__defineGetter__'', ''__defineSetter__''] then 2
      else if n \<in> set [''toLocaleString'', ''toString'', ''valueOf''] then 0
      else 1)"

fun js_length :: "jsval \<Rightarrow> jsval" where
  "js_length (JStr s) = JNum (Dec (int (length s)) 0)"
| "js_length (JObject ps) = js_get ps ''length''"
| "js_length (JBuiltin n) =
     (if n = ''__proto__'' then JUndefined else JNum (Dec (builtin_arity n) 0))"
| "js_length _ = JUndefined"

text \<open>\<open>v && v.length ? v : null\<close>\<close>

definition or_null :: "jsval \<Rightarrow> jsval" where
  "or_null v = (if truthy v \<and> truthy (js_length v) then v else JNull)"

text \<open>A \<open>throw\<close> ends the evaluation; a value is passed on.\<close>

fun and_then :: "js_error + 'a \<Rightarrow> ('a \<Rightarrow> js_error + 'b) \<Rightarrow> js_error + 'b" where
  "and_then (Inl e) f = Inl e"
| "and_then (Inr x) f = f x"

text \<open>
  The \<open>switch\<close> on the chosen app; \<open>None\<close> is the \<open>url\<close> left \<open>null\<close>. The operands of
  each \<open>+\<close> are evaluated from left to right, so the first \<open>encodeURIComponent\<close> that
  throws ends it.
\<close>

definition format_url ::
  "bool \<Rightarrow> jsval \<Rightarrow> jsnum \<Rightarrow> jsnum \<Rightarrow> jsval \<Rightarrow> jsval \<Rightarrow> js_error + string option" where
  "format_url ios app lat lng title address =
     (if app = JStr ''apple-maps'' then
        and_then (to_string (js_get (prefixes ios) ''apple-maps'')) (\<lambda>prefix.
        and_then (encodeURIComponent (js_or title (JStr ''Location''))) (\<lambda>q.
        and_then (encodeURIComponent (js_or address (JStr []))) (\<lambda>a.
          Inr (Some (prefix @ ''?ll='' @ num_to_string lat @ '','' @ num_to_string lng
                     @ ''&q='' @ q @ ''&address='' @ a)))))
      else if app = JStr ''google-maps'' then
        and_then (to_string (js_get (prefixes ios) ''google-maps'')) (\<lambda>prefix.
          if ios then
            and_then (encodeURIComponent (js_or (js_or address title) (JStr ''Location''))) (\<lambda>q.
              Inr (Some (prefix @ ''?api=1&ll='' @ num_to_string lat @ '','' @ num_to_string lng
                         @ ''&q='' @ q)))
          else Inr (Some (prefix @ ''?q='' @ num_to_string lat @ '','' @ num_to_string lng)))
      else if app = JStr ''citymapper'' then
        and_then (to_string (js_get (prefixes ios) ''citymapper'')) (\<lambda>prefix.
          if truthy title then
            and_then (encodeURIComponent title) (\<lambda>t.
              Inr (Some (prefix @ ''directions?endcoord='' @ num_to_string lat @ '',''
                         @ num_to_string lng @ ''&endname='' @ t)))
          else Inr (Some (prefix @ ''directions?endcoord='' @ num_to_string lat @ '',''
                          @ num_to_string lng)))
      else if app = JStr ''uber'' then
        and_then (to_string (js_get (prefixes ios) ''uber'')) (\<lambda>prefix.
          if truthy title then
            and_then (encodeURIComponent title) (\<lambda>t.
              Inr (Some (prefix @ ''?action=setPickup&pickup=my_location&dropoff[latitude]=''
                         @ num_to_string lat @ ''&dropoff[longitude]'' @ num_to_string lng
                         @ ''&dropoff[nickname]='' @ t)))
          else Inr (Some (prefix @ ''?action=setPickup&pickup=my_location&dropoff[latitude]=''
                          @ num_to_string lat @ ''&dropoff[longitude]'' @ num_to_string lng)))
      else if app = JStr ''lyft'' then
        and_then (to_string (js_get (prefixes ios) ''lyft'')) (\<lambda>prefix.
          Inr (Some (prefix @ ''ridetype?id=lyft&destination[latitude]='' @ num_to_string lat
                     @ ''&destination[longitude]='' @ num_to_string lng)))
      else if app = JStr ''transit'' then
        and_then (to_string (js_get (prefixes ios) ''transit'')) (\<lambda>prefix.
          Inr (Some (prefix @ ''directions?to='' @ num_to_string lat @ '','' @ num_to_string lng)))
      else if app = JStr ''waze'' then
        and_then (to_string (js_get (prefixes ios) ''waze'')) (\<lambda>prefix.
          Inr (Some (prefix @ ''?ll='' @ num_to_string lat @ '','' @ num_to_string lng
                     @ ''&navigate=yes'')))
      else if app = JStr ''yandex'' then
        and_then (to_string (js_get (prefixes ios) ''yandex'')) (\<lambda>prefix.
          Inr (Some (prefix @ ''build_route_on_map?lat_to='' @ num_to_string lat
                     @ ''&lon_to='' @ num_to_string lng)))
      else if app = JStr ''moovit'' then
        and_then (to_string (js_get (prefixes ios) ''moovit'')) (\<lambda>prefix.
          if truthy title then
            and_then (encodeURIComponent title) (\<lambda>t.
              Inr (Some (prefix @ ''directions?dest_lat='' @ num_to_string lat @ ''&dest_lon''
                         @ num_to_string lng @ ''&dest_name='' @ t)))
          else Inr (Some (prefix @ ''directions?dest_lat='' @ num_to_string lat @ ''&dest_lon''
                          @ num_to_string lng)))
      else Inr None)"

text \<open>\<open>if (!app) { app = await askAppChoice() }\<close>\<close>

definition resolve_app :: "platform \<Rightarrow> jsval \<Rightarrow> jsval promise \<times> call list" where
  "resolve_app P app =
     (if \<not> truthy app then askAppChoice P ''Open in Maps'' ''What app would you like to use?''
      else (Resolved app, []))"

text \<open>
  The result is the state of the promise that the async function returns, with the calls
  made to the host. Whatever is thrown in the body rejects that promise: a
  \<open>MapsException\<close> of the checks, the \<open>TypeError\<close> of a coordinate that \<open>parseFloat\<close>
  cannot turn into text, the \<open>URIError\<close> of \<open>encodeURIComponent\<close>.
\<close>

definition showLocation :: "platform \<Rightarrow> jsval \<Rightarrow> jsval promise \<times> call list" where
  "showLocation P options =
     (case validate options of
        Some e \<Rightarrow> (Rejected e, [])
      | None \<Rightarrow>
          (case parseFloat (js_get (props_of options) ''latitude'') of
             Inl e \<Rightarrow> (Rejected e, [])
           | Inr lat \<Rightarrow>
               (case parseFloat (js_get (props_of options) ''longitude'') of
                  Inl e \<Rightarrow> (Rejected e, [])
                | Inr lng \<Rightarrow>
                    (let address = or_null (js_get (props_of options) ''address'');
                         title = or_null (js_get (props_of options) ''title'');
                         app = or_null (js_get (props_of options) ''app'')
                     in case resolve_app P app of
                          (Pending, tr) \<Rightarrow> (Pending, tr)
                        | (Rejected e, tr) \<Rightarrow> (Rejected e, tr)
                        | (Resolved app', tr) \<Rightarrow>
                            (case format_url (isIOS P) app' lat lng title address of
                               Inl e \<Rightarrow> (Rejected e, tr)
                             | Inr None \<Rightarrow> (Resolved JUndefined, tr)
                             | Inr (Some url) \<Rightarrow>
                                 if url \<noteq> [] then (openURL P url, tr @ [OpenURL url])
                                 else (Resolved JUndefined, tr))))))"

section \<open>Notions used to state the properties\<close>

text \<open>An app probes as available when \<open>isAppInstalled\<close> resolves \<open>true\<close> for it.\<close>

definition probes_available :: "platform \<Rightarrow> string \<Rightarrow> bool" where
  "probes_available P app \<longleftrightarrow> fst (isAppInstalled P app) = Resolved True"

text \<open>The ten probes of \<open>askAppChoice\<close>, in the order of the table.\<close>

definition probe_calls :: "platform \<Rightarrow> call list" where
  "probe_calls P = map (\<lambda>app. CanOpenURL (js_get (prefixes (isIOS P)) app)) apps"

text \<open>
  A host on which exactly the URLs in \<open>installed\<close> can be opened, whose user always
  presses button \<open>k\<close>, and a host whose probe says yes to whatever it is handed.
\<close>

definition demo_host :: "bool \<Rightarrow> jsval list \<Rightarrow> nat \<Rightarrow> platform" where
  "demo_host ios installed k =
     \<lparr>isIOS = ios,
      canOpenURL = (\<lambda>url. if url \<in> set installed then ProbeResolves (JBool True)
                           else ProbeRejects (JStr ''unsupported'')),
      showActionSheetWithOptions = (\<lambda>title message options cancel. Some k),
      alert = (\<lambda>title message buttons. ButtonPressed k),
      openURL = (\<lambda>url. Resolved JUndefined)\<rparr>"

definition trusting_host :: platform where
  "trusting_host =
     \<lparr>isIOS = False,
      canOpenURL = (\<lambda>url. ProbeResolves (JBool True)),
      showActionSheetWithOptions = (\<lambda>title message options cancel. None),
      alert = (\<lambda>title message buttons. AlertDismissed),
      openURL = (\<lambda>url. Resolved JUndefined)\<rparr>"

text \<open>The object \<open>{latitude: lat, longitude: lng, title: title, app: app}\<close>.\<close>

definition request :: "jsval \<Rightarrow> jsval \<Rightarrow> jsval \<Rightarrow> jsval \<Rightarrow> (string \<times> jsval) list" where
  "request lat lng title app =
     [(''latitude'', lat), (''longitude'', lng), (''title'', title), (''app'', app)]"

section \<open>Auxiliary facts\<close>

declare num_to_string.simps(4) [simp del]

subsection \<open>Values and tables\<close>

lemma proto_keys_fields [simp]:
  "''latitude'' \<notin> set object_prototype_keys" "''longitude'' \<notin> set object_prototype_keys"
  "''address'' \<notin> set object_prototype_keys" "''title'' \<notin> set object_prototype_keys"
  "''app'' \<notin> set object_prototype_keys"
  by (simp_all add: object_prototype_keys_def)

lemma truthy_get_in: "truthy (js_get ps k) \<Longrightarrow> js_in k ps"
  by (auto simp: js_get_def js_in_def split: option.splits if_splits)

lemma typeof_string: "js_typeof v = ''string'' \<longleftrightarrow> (\<exists>s. v = JStr s)"
  by (cases v) auto

lemma or_null_string: "truthy v \<Longrightarrow> js_typeof v = ''string'' \<Longrightarrow> or_null v = v"
  by (auto simp: or_null_def typeof_string)

lemma or_null_falsy: "\<not> truthy v \<Longrightarrow> or_null v = JNull"
  by (simp add: or_null_def)

lemma apps_nonempty: "a \<in> set apps \<Longrightarrow> a \<noteq> []"
  by (auto simp: apps_def)

lemma keys_prefixes: "map fst (prefixes ios) = apps"
  by (simp add: prefixes_def apps_def)

lemma keys_titles: "map fst titles = apps"
  by (simp add: titles_def apps_def)

lemma registered_in: "a \<in> set apps \<Longrightarrow> js_in a (prefixes ios)"
  by (auto simp: apps_def js_in_def prefixes_def)

lemma inherited_not_registered_all: "list_all (\<lambda>b. b \<notin> set apps) object_prototype_keys"
  by code_simp

lemma inherited_not_registered: "b \<in> set object_prototype_keys \<Longrightarrow> b \<notin> set apps"
  using inherited_not_registered_all by (simp add: list_all_iff)

lemma map_of_unregistered:
  "b \<notin> set apps \<Longrightarrow> map_of (prefixes ios) b = None \<and> map_of titles b = None"
  by (metis keys_prefixes keys_titles map_of_eq_None_iff set_map)

lemma inherited_lookup:
  "b \<in> set object_prototype_keys \<Longrightarrow>
   js_get (prefixes ios) b = JBuiltin b \<and> js_get titles b = JBuiltin b"
  by (simp add: js_get_def map_of_unregistered inherited_not_registered)

lemma not_in_table:
  assumes "\<not> js_in k (prefixes ios)"
  shows "js_get (prefixes ios) k = JUndefined \<and> js_get titles k = JUndefined"
proof -
  from assms have "k \<notin> set apps"
    using registered_in by blast
  with assms show ?thesis
    by (simp add: js_get_def js_in_def map_of_unregistered)
qed

lemma prefix_lookup [simp]:
  "js_get (prefixes ios) ''apple-maps'' = JStr (if ios then ''http://maps.apple.com/'' else ''applemaps://'')"
  "js_get (prefixes ios) ''google-maps'' = JStr (if ios then ''comgooglemaps://'' else ''https://maps.google.com/'')"
  "js_get (prefixes ios) ''citymapper'' = JStr ''citymapper://''"
  "js_get (prefixes ios) ''uber'' = JStr ''uber://''"
  "js_get (prefixes ios) ''lyft'' = JStr ''lyft://''"
  "js_get (prefixes ios) ''navigon'' = JStr ''navigon://''"
  "js_get (prefixes ios) ''transit'' = JStr ''transit://''"
  "js_get (prefixes ios) ''waze'' = JStr ''waze://''"
  "js_get (prefixes ios) ''yandex'' = JStr ''yandexnavi://''"
  "js_get (prefixes ios) ''moovit'' = JStr ''moovit://''"
  by (simp_all add: js_get_def prefixes_def)

lemma title_lookup [simp]:
  "js_get titles ''apple-maps'' = JStr ''Apple Maps''"
  "js_get titles ''google-maps'' = JStr ''Google Maps''"
  "js_get titles ''citymapper'' = JStr ''Citymapper''"
  "js_get titles ''uber'' = JStr ''Uber''"
  "js_get titles ''lyft'' = JStr ''Lyft''"
  "js_get titles ''navigon'' = JStr ''Navigon''"
  "js_get titles ''transit'' = JStr ''The Transit App''"
  "js_get titles ''waze'' = JStr ''Waze''"
  "js_get titles ''yandex'' = JStr ''Yandex.Navi''"
  "js_get titles ''moovit'' = JStr ''Moovit''"
  by (simp_all add: js_get_def titles_def)

lemma js_get_delete:
  "js_get (AList.delete k ps) k' =
     (if k' = k then (if k \<in> set object_prototype_keys then JBuiltin k else JUndefined)
      else js_get ps k')"
  by (simp add: js_get_def delete_conv)

lemma js_in_delete:
  "js_in k' (AList.delete k ps) = (if k' = k then k \<in> set object_prototype_keys else js_in k' ps)"
  by (simp add: js_in_def delete_conv)

subsection \<open>Sample hosts and requests\<close>

lemma demo_host_sel [simp]:
  "isIOS (demo_host ios installed k) = ios"
  "canOpenURL (demo_host ios installed k) url =
     (if url \<in> set installed then ProbeResolves (JBool True) else ProbeRejects (JStr ''unsupported''))"
  "showActionSheetWithOptions (demo_host ios installed k) t m os c = Some k"
  "alert (demo_host ios installed k) t m bs = ButtonPressed k"
  "openURL (demo_host ios installed k) link = Resolved JUndefined"
  by (simp_all add: demo_host_def)

lemma request_fields [simp]:
  "js_get (request lat lng title app) ''latitude'' = lat"
  "js_get (request lat lng title app) ''longitude'' = lng"
  "js_get (request lat lng title app) ''title'' = title"
  "js_get (request lat lng title app) ''app'' = app"
  "js_get (request lat lng title app) ''address'' = JUndefined"
  "js_in ''latitude'' (request lat lng title app)"
  "js_in ''longitude'' (request lat lng title app)"
  "js_in ''title'' (request lat lng title app)"
  "js_in ''app'' (request lat lng title app)"
  "\<not> js_in ''address'' (request lat lng title app)"
  by (simp_all add: request_def js_get_def js_in_def)

lemma show_1: "num_to_string (Dec 1 0) = ''1''"
  by code_simp

lemma show_2: "num_to_string (Dec 2 0) = ''2''"
  by code_simp

lemma show_407: "num_to_string (Dec 407 (- 1)) = ''40.7''"
  by code_simp

lemma show_74: "num_to_string (Dec (- 74) 0) = ''-74''"
  by code_simp

lemma read_1: "str_decimal (trim_start ''1'') = Dec 1 0"
  by code_simp

lemma read_2: "str_decimal (trim_start ''2'') = Dec 2 0"
  by code_simp

lemma read_407: "str_decimal (trim_start ''40.7'') = Dec 407 (- 1)"
  by code_simp

lemma read_74: "str_decimal (trim_start ''-74'') = Dec (- 74) 0"
  by code_simp



lemma parse_1: "parseFloat (JNum (Dec 1 0)) = Inr (Dec 1 0)"
  by (simp add: parseFloat_def show_1 read_1)

lemma parse_2: "parseFloat (JNum (Dec 2 0)) = Inr (Dec 2 0)"
  by (simp add: parseFloat_def show_2 read_2)

lemma parse_407: "parseFloat (JNum (Dec 407 (- 1))) = Inr (Dec 407 (- 1))"
  by (simp add: parseFloat_def show_407 read_407)

lemma parse_74: "parseFloat (JNum (Dec (- 74) 0)) = Inr (Dec (- 74) 0)"
  by (simp add: parseFloat_def show_74 read_74)



text \<open>
  The object \<open>{toString: null}\<close> has no method that gives it a text: its own \<open>toString\<close>
  is not callable and the inherited \<open>valueOf\<close> returns the object itself.
\<close>

lemma parse_unconvertible: "parseFloat (JObject [(''toString'', JNull)]) = Inl TypeError"
  by code_simp

lemma encode_Home: "encodeURIComponent (JStr ''Home'') = Inr ''Home''"
  by code_simp





text \<open>The string \<open>'\uD800'\<close>, one surrogate that stands alone.\<close>

lemma encode_lone_surrogate:
  "encodeURIComponent (JStr [CHR 0xED, CHR 0xA0, CHR 0x80]) = Inl URIError"
  by code_simp

subsection \<open>Validation\<close>

lemma valid_address:
  "validate (JObject ps) = None \<Longrightarrow> truthy (js_get ps ''address'') \<Longrightarrow>
   js_typeof (js_get ps ''address'') = ''string''"
  by (auto simp: validate_def dest: truthy_get_in split: if_splits)

lemma valid_title:
  "validate (JObject ps) = None \<Longrightarrow> truthy (js_get ps ''title'') \<Longrightarrow>
   js_typeof (js_get ps ''title'') = ''string''"
  by (auto simp: validate_def dest: truthy_get_in split: if_splits)

lemma valid_app:
  "validate (JObject ps) = None \<Longrightarrow> truthy (js_get ps ''app'') \<Longrightarrow>
   js_get ps ''app'' \<in> JStr ` set apps"
  by (auto simp: validate_def dest: truthy_get_in split: if_splits)

lemma or_null_app:
  "validate (JObject ps) = None \<Longrightarrow> truthy (js_get ps ''app'') \<Longrightarrow>
   or_null (js_get ps ''app'') = js_get ps ''app''"
  by (drule (1) valid_app) (auto simp: or_null_def dest: apps_nonempty)

lemma or_null_title:
  "validate (JObject ps) = None \<Longrightarrow>
   or_null (js_get ps ''title'') = (if truthy (js_get ps ''title'') then js_get ps ''title'' else JNull)"
  by (auto simp: or_null_falsy dest: valid_title intro: or_null_string)

lemma validate_request:
  assumes "\<not> truthy title \<or> js_typeof title = ''string''"
    and "\<not> truthy app \<or> app \<in> JStr ` set apps"
  shows "validate (JObject (request lat lng title app)) = None"
  using assms by (auto simp: validate_def)

lemma validate_falsy_title:
  assumes "\<not> truthy (js_get ps ''title'')"
  shows "validate (JObject ps) = validate (JObject (AList.delete ''title'' ps))"
  using assms by (simp add: validate_def js_get_delete js_in_delete)

lemma validate_falsy_address:
  assumes "\<not> truthy (js_get ps ''address'')"
  shows "validate (JObject ps) = validate (JObject (AList.delete ''address'' ps))"
  using assms by (simp add: validate_def js_get_delete js_in_delete)

subsection \<open>The flow of showLocation\<close>


text \<open>With an explicit app that passed validation, no choice is asked for.\<close>

lemma showLocation_explicit_app:
  assumes "validate (JObject ps) = None" and "truthy (js_get ps ''app'')"
  shows "showLocation P (JObject ps) =
     (case parseFloat (js_get ps ''latitude'') of
        Inl e \<Rightarrow> (Rejected e, [])
      | Inr x \<Rightarrow>
          (case parseFloat (js_get ps ''longitude'') of
             Inl e \<Rightarrow> (Rejected e, [])
           | Inr y \<Rightarrow>
               (case format_url (isIOS P) (js_get ps ''app'') x y
                       (or_null (js_get ps ''title'')) (or_null (js_get ps ''address'')) of
                  Inl e \<Rightarrow> (Rejected e, [])
                | Inr None \<Rightarrow> (Resolved JUndefined, [])
                | Inr (Some url) \<Rightarrow>
                    if url \<noteq> [] then (openURL P url, [OpenURL url])
                    else (Resolved JUndefined, []))))"
  using assms
  by (simp add: showLocation_def resolve_app_def or_null_app split: sum.splits option.splits)

lemma showLocation_falsy_title:
  assumes "\<not> truthy (js_get ps ''title'')"
  shows "showLocation P (JObject ps) = showLocation P (JObject (AList.delete ''title'' ps))"
  using assms
  by (simp add: showLocation_def validate_falsy_title [OF assms] js_get_delete or_null_falsy Let_def
        split: option.splits sum.splits)

lemma showLocation_falsy_address:
  assumes "\<not> truthy (js_get ps ''address'')"
  shows "showLocation P (JObject ps) = showLocation P (JObject (AList.delete ''address'' ps))"
  using assms
  by (simp add: showLocation_def validate_falsy_address [OF assms] js_get_delete or_null_falsy Let_def
        split: option.splits sum.splits)


section \<open>Request validation\<close>

text \<open>
  C1. Whenever the \<open>app\<close> field of the options object is present and truthy but is not one
  of the ten registered ids, \<open>showLocation\<close> is rejected with a \<open>MapsException\<close>, and the
  host has not been called at all by then: no probe, no prompt, no launch. (The exception
  is thrown in the body of an async function before its first \<open>await\<close>, so it shows as
  the rejection of the returned promise.)
\<close>

theorem showLocation_rejects_unknown_app:
  assumes "js_in ''app'' ps" and "truthy (js_get ps ''app'')"
    and "js_get ps ''app'' \<notin> JStr ` set apps"
  shows "\<exists>message. showLocation P (JObject ps) = (Rejected (MapsException message), [])"
  using assms by (simp add: showLocation_def validate_def)

text \<open>The request \<open>{app: 'bogus-app', latitude: 1, longitude: 2}\<close> of the specification.\<close>

theorem showLocation_rejects_unknown_app_witness:
  "js_in ''app'' (request (JNum (Dec 1 0)) (JNum (Dec 2 0)) JUndefined (JStr ''bogus-app''))
   \<and> truthy (js_get (request (JNum (Dec 1 0)) (JNum (Dec 2 0)) JUndefined (JStr ''bogus-app'')) ''app'')
   \<and> js_get (request (JNum (Dec 1 0)) (JNum (Dec 2 0)) JUndefined (JStr ''bogus-app'')) ''app''
        \<notin> JStr ` set apps
   \<and> (\<exists>message.
         showLocation trusting_host
           (JObject (request (JNum (Dec 1 0)) (JNum (Dec 2 0)) JUndefined (JStr ''bogus-app'')))
         = (Rejected (MapsException message), []))"
proof -
  let ?r = "request (JNum (Dec 1 0)) (JNum (Dec 2 0)) JUndefined (JStr ''bogus-app'')"
  have present: "js_in ''app'' ?r" and nonempty: "truthy (js_get ?r ''app'')"
    by simp_all
  have unknown: "js_get ?r ''app'' \<notin> JStr ` set apps"
    by (auto simp: apps_def)
  from present nonempty unknown
    showLocation_rejects_unknown_app [OF present nonempty unknown, of trusting_host]
  show ?thesis by blast
qed

section \<open>Formatting and launching\<close>

lemma waze_fields:
  "js_get [(''latitude'', JNum (Dec 407 (- 1))), (''longitude'', JNum (Dec (- 74) 0)),
           (''app'', JStr ''waze'')] ''latitude'' = JNum (Dec 407 (- 1))"
  "js_get [(''latitude'', JNum (Dec 407 (- 1))), (''longitude'', JNum (Dec (- 74) 0)),
           (''app'', JStr ''waze'')] ''longitude'' = JNum (Dec (- 74) 0)"
  "js_get [(''latitude'', JNum (Dec 407 (- 1))), (''longitude'', JNum (Dec (- 74) 0)),
           (''app'', JStr ''waze'')] ''app'' = JStr ''waze''"
  "js_get [(''latitude'', JNum (Dec 407 (- 1))), (''longitude'', JNum (Dec (- 74) 0)),
           (''app'', JStr ''waze'')] ''title'' = JUndefined"
  "js_get [(''latitude'', JNum (Dec 407 (- 1))), (''longitude'', JNum (Dec (- 74) 0)),
           (''app'', JStr ''waze'')] ''address'' = JUndefined"
  by (simp_all add: js_get_def)

lemma waze_valid:
  "validate (JObject [(''latitude'', JNum (Dec 407 (- 1))), (''longitude'', JNum (Dec (- 74) 0)),
                     (''app'', JStr ''waze'')]) = None"
  by (simp add: validate_def waze_fields apps_def) (simp add: js_in_def)

text \<open>
  C5. For \<open>{latitude: 40.7, longitude: -74, app: 'waze'}\<close>, on every host, \<open>showLocation\<close>
  makes exactly one call, \<open>Linking.openURL('waze://?ll=40.7,-74&navigate=yes')\<close>, and
  returns what that call returns.
\<close>

theorem showLocation_waze_example:
  "showLocation P (JObject [(''latitude'', JNum (Dec 407 (- 1))), (''longitude'', JNum (Dec (- 74) 0)),
                            (''app'', JStr ''waze'')])
   = (openURL P ''waze://?ll=40.7,-74&navigate=yes'', [OpenURL ''waze://?ll=40.7,-74&navigate=yes''])"
  by (simp add: showLocation_explicit_app [OF waze_valid] waze_fields format_url_def
        parse_407 parse_74 show_407 show_74)

theorem showLocation_waze_example_witness:
  "showLocation (demo_host True [] 0)
     (JObject [(''latitude'', JNum (Dec 407 (- 1))), (''longitude'', JNum (Dec (- 74) 0)),
               (''app'', JStr ''waze'')])
   = (Resolved JUndefined, [OpenURL ''waze://?ll=40.7,-74&navigate=yes''])"
  using showLocation_waze_example [of "demo_host True [] 0"] by simp

text \<open>
  C6, as stated, promises a formatted URL for every valid input with the app \<open>uber\<close>. The
  coordinates are read with \<open>parseFloat\<close> before the \<open>switch\<close>, and no check looks at their
  type: \<open>{latitude: {toString: null}, longitude: 2, app: 'uber'}\<close> passes the checks, and
  \<open>parseFloat\<close> throws a \<open>TypeError\<close> on its latitude. A title is a string, but
  \<open>encodeURIComponent\<close> throws a \<open>URIError\<close> on the title \<open>'\uD800'\<close>, a surrogate on its
  own. In both cases the promise is rejected and no URL is formatted or launched.
\<close>

theorem uber_conversion_counterexample:
  "validate (JObject (request (JObject [(''toString'', JNull)]) (JNum (Dec 2 0)) JUndefined
                        (JStr ''uber''))) = None
   \<and> showLocation trusting_host
        (JObject (request (JObject [(''toString'', JNull)]) (JNum (Dec 2 0)) JUndefined
                    (JStr ''uber'')))
      = (Rejected TypeError, [])
   \<and> validate (JObject (request (JNum (Dec 1 0)) (JNum (Dec 2 0))
                          (JStr [CHR 0xED, CHR 0xA0, CHR 0x80]) (JStr ''uber''))) = None
   \<and> showLocation trusting_host
        (JObject (request (JNum (Dec 1 0)) (JNum (Dec 2 0))
                    (JStr [CHR 0xED, CHR 0xA0, CHR 0x80]) (JStr ''uber'')))
      = (Rejected URIError, [])"
proof -
  let ?r = "request (JObject [(''toString'', JNull)]) (JNum (Dec 2 0)) JUndefined (JStr ''uber'')"
  let ?s = "request (JNum (Dec 1 0)) (JNum (Dec 2 0)) (JStr [CHR 0xED, CHR 0xA0, CHR 0x80])
              (JStr ''uber'')"
  have first: "validate (JObject ?r) = None"
    by (rule validate_request) (simp_all add: apps_def)
  have second: "validate (JObject ?s) = None"
    by (rule validate_request) (simp_all add: apps_def)
  have "showLocation trusting_host (JObject ?r) = (Rejected TypeError, [])"
    by (simp add: showLocation_explicit_app [OF first] parse_unconvertible)
  moreover
  have "showLocation trusting_host (JObject ?s) = (Rejected URIError, [])"
    by (simp add: showLocation_explicit_app [OF second] parse_1 parse_2 format_url_def
          or_null_def encode_lone_surrogate)
  ultimately show ?thesis
    using first second by simp
qed

text \<open>
  C6, amended. For every options object that passes validation and names the app \<open>uber\<close>:
  when both coordinates can be converted (every number and every string can) and the
  title, if there is one, can be percent-encoded, \<open>showLocation\<close> launches the URL made of
  \<open>uber://\<close>, \<open>?action=setPickup&pickup=my_location&dropoff[latitude]=\<close>, the latitude,
  \<open>&dropoff[longitude]\<close> and the longitude, with no \<open>=\<close> before the longitude; then
  \<open>&dropoff[nickname]=\<close> and the percent-encoded title follow if and only if the title
  is a non-empty string. Otherwise the promise is rejected with the error of the first
  conversion that fails, latitude, then longitude, then title, and the host is not
  called.
\<close>

theorem showLocation_uber:
  assumes "validate (JObject ps) = None" and "js_get ps ''app'' = JStr ''uber''"
  shows "showLocation P (JObject ps) =
     (case parseFloat (js_get ps ''latitude'') of
        Inl e \<Rightarrow> (Rejected e, [])
      | Inr lat \<Rightarrow>
          (case parseFloat (js_get ps ''longitude'') of
             Inl e \<Rightarrow> (Rejected e, [])
           | Inr lng \<Rightarrow>
               (let url = ''uber://?action=setPickup&pickup=my_location&dropoff[latitude]=''
                          @ num_to_string lat @ ''&dropoff[longitude]'' @ num_to_string lng
                in if truthy (js_get ps ''title'') then
                     (case encodeURIComponent (js_get ps ''title'') of
                        Inl e \<Rightarrow> (Rejected e, [])
                      | Inr t \<Rightarrow>
                          (openURL P (url @ ''&dropoff[nickname]='' @ t),
                           [OpenURL (url @ ''&dropoff[nickname]='' @ t)]))
                   else (openURL P url, [OpenURL url]))))"
  using assms
  by (simp add: showLocation_explicit_app or_null_title format_url_def Let_def
        split: sum.splits)

text \<open>
  The requests \<open>{latitude: 1, longitude: 2, title: 'Home', app: 'uber'}\<close> and
  \<open>{latitude: 1, longitude: 2, app: 'uber'}\<close>.
\<close>

theorem showLocation_uber_witness:
  "validate (JObject (request (JNum (Dec 1 0)) (JNum (Dec 2 0)) (JStr ''Home'') (JStr ''uber''))) = None
   \<and> showLocation (demo_host True [] 0)
        (JObject (request (JNum (Dec 1 0)) (JNum (Dec 2 0)) (JStr ''Home'') (JStr ''uber'')))
      = (Resolved JUndefined,
         [OpenURL ''uber://?action=setPickup&pickup=my_location&dropoff[latitude]=1&dropoff[longitude]2&dropoff[nickname]=Home''])
   \<and> showLocation (demo_host True [] 0)
        (JObject (request (JNum (Dec 1 0)) (JNum (Dec 2 0)) JUndefined (JStr ''uber'')))
      = (Resolved JUndefined,
         [OpenURL ''uber://?action=setPickup&pickup=my_location&dropoff[latitude]=1&dropoff[longitude]2''])"
proof -
  have titled: "validate (JObject (request (JNum (Dec 1 0)) (JNum (Dec 2 0)) (JStr ''Home'') (JStr ''uber''))) = None"
    by (rule validate_request) (simp_all add: apps_def)
  have untitled: "validate (JObject (request (JNum (Dec 1 0)) (JNum (Dec 2 0)) JUndefined (JStr ''uber''))) = None"
    by (rule validate_request) (simp_all add: apps_def)
  from titled
    showLocation_uber [OF titled, where P = "demo_host True [] 0"]
    showLocation_uber [OF untitled, where P = "demo_host True [] 0"]
  show ?thesis
    by (simp add: parse_1 parse_2 show_1 show_2 encode_Home)
qed

text \<open>
  C7, as stated, has every valid input with the app \<open>navigon\<close> resolve. The coordinates are
  read with \<open>parseFloat\<close> before the \<open>switch\<close>, whatever the app:
  \<open>{latitude: {toString: null}, longitude: 2, app: 'navigon'}\<close> passes the checks, and the
  promise is rejected with the \<open>TypeError\<close> that \<open>parseFloat\<close> throws.
\<close>

theorem navigon_conversion_counterexample:
  "validate (JObject (request (JObject [(''toString'', JNull)]) (JNum (Dec 2 0)) JUndefined
                        (JStr ''navigon''))) = None
   \<and> showLocation trusting_host
        (JObject (request (JObject [(''toString'', JNull)]) (JNum (Dec 2 0)) JUndefined
                    (JStr ''navigon'')))
      = (Rejected TypeError, [])"
proof -
  let ?r = "request (JObject [(''toString'', JNull)]) (JNum (Dec 2 0)) JUndefined (JStr ''navigon'')"
  have valid: "validate (JObject ?r) = None"
    by (rule validate_request) (simp_all add: apps_def)
  have "showLocation trusting_host (JObject ?r) = (Rejected TypeError, [])"
    by (simp add: showLocation_explicit_app [OF valid] parse_unconvertible)
  with valid show ?thesis
    by simp
qed

text \<open>
  C7, amended. For every options object that passes validation and names the app
  \<open>navigon\<close>, \<open>showLocation\<close> calls nothing on the host, and it resolves with \<open>undefined\<close>
  whenever both coordinates can be converted (every number and every string can);
  otherwise it is rejected with the error of the conversion. The \<open>switch\<close> has no case for
  \<open>navigon\<close>, so no URL is formatted for it, although the tables give it a prefix and a
  title.
\<close>

theorem showLocation_navigon:
  assumes "validate (JObject ps) = None" and "js_get ps ''app'' = JStr ''navigon''"
  shows "showLocation P (JObject ps) =
           (case parseFloat (js_get ps ''latitude'') of
              Inl e \<Rightarrow> (Rejected e, [])
            | Inr lat \<Rightarrow>
                (case parseFloat (js_get ps ''longitude'') of
                   Inl e \<Rightarrow> (Rejected e, [])
                 | Inr lng \<Rightarrow> (Resolved JUndefined, [])))
         \<and> snd (showLocation P (JObject ps)) = []
         \<and> format_url (isIOS P) (JStr ''navigon'') x y title address = Inr None
         \<and> js_get (prefixes (isIOS P)) ''navigon'' = JStr ''navigon://''
         \<and> js_get titles ''navigon'' = JStr ''Navigon''"
  using assms
  by (simp add: showLocation_explicit_app format_url_def split: sum.splits)

text \<open>The request \<open>{latitude: 1, longitude: 2, app: 'navigon'}\<close> of the specification.\<close>

theorem showLocation_navigon_witness:
  "validate (JObject (request (JNum (Dec 1 0)) (JNum (Dec 2 0)) JUndefined (JStr ''navigon''))) = None
   \<and> showLocation trusting_host
        (JObject (request (JNum (Dec 1 0)) (JNum (Dec 2 0)) JUndefined (JStr ''navigon'')))
      = (Resolved JUndefined, [])"
proof -
  have valid: "validate (JObject (request (JNum (Dec 1 0)) (JNum (Dec 2 0)) JUndefined (JStr ''navigon''))) = None"
    by (rule validate_request) (simp_all add: apps_def)
  from valid showLocation_navigon [OF valid, where P = trusting_host]
  show ?thesis by (simp add: parse_1 parse_2)
qed

section \<open>Probing\<close>

lemma isAppInstalled_resolves: "\<exists>b. fst (isAppInstalled P app) = Resolved b"
  by (cases "canOpenURL P (js_get (prefixes (isIOS P)) app)") (auto simp: isAppInstalled_def)

lemma isAppInstalled_rejected_probe:
  "canOpenURL P (js_get (prefixes (isIOS P)) app) = ProbeRejects reason \<Longrightarrow>
   fst (isAppInstalled P app) = Resolved False"
  by (simp add: isAppInstalled_def)

lemma isAppInstalled_registered:
  "a \<in> set apps \<Longrightarrow>
   isAppInstalled P a = (Resolved (probes_available P a), [CanOpenURL (js_get (prefixes (isIOS P)) a)])"
  by (auto simp: probes_available_def isAppInstalled_def registered_in Let_def
           split: probe_outcome.splits)

lemma probes_available_registered:
  "a \<in> set apps \<Longrightarrow>
   probes_available P a =
     (case canOpenURL P (js_get (prefixes (isIOS P)) a) of
        ProbeResolves result \<Rightarrow> truthy result
      | ProbeRejects reason \<Rightarrow> False)"
  by (simp add: probes_available_def isAppInstalled_def registered_in Let_def
           split: probe_outcome.splits)

lemma isAppInstalled_not_in_table:
  "\<not> js_in app (prefixes (isIOS P)) \<Longrightarrow> isAppInstalled P app = (Resolved False, [])"
  by (simp add: isAppInstalled_def)

text \<open>
  C2. \<open>isAppInstalled\<close> always resolves with a boolean, a rejected probe gives \<open>false\<close>,
  and so does a name that is no property of \<open>prefixes\<close> (the lemmas above). A name outside
  the ten ids is another matter when plain objects inherit it from \<open>Object.prototype\<close>:
  \<open>'toString' in prefixes\<close> is true, so the guard lets the name through, the probe is
  handed the inherited built-in, and \<open>isAppInstalled\<close> resolves with whatever the probe
  reports for it: \<open>true\<close> when the probe resolves with a truthy value.
\<close>

theorem isAppInstalled_inherited_name:
  assumes "b \<in> set object_prototype_keys"
  shows "b \<notin> set apps
         \<and> isAppInstalled P b =
             (Resolved (case canOpenURL P (JBuiltin b) of
                          ProbeResolves result \<Rightarrow> truthy result
                        | ProbeRejects reason \<Rightarrow> False),
              [CanOpenURL (JBuiltin b)])"
proof -
  from assms have "js_in b (prefixes (isIOS P))"
    and "js_get (prefixes (isIOS P)) b = JBuiltin b"
    by (simp_all add: js_in_def inherited_lookup)
  then have "isAppInstalled P b =
             (Resolved (case canOpenURL P (JBuiltin b) of
                          ProbeResolves result \<Rightarrow> truthy result
                        | ProbeRejects reason \<Rightarrow> False),
              [CanOpenURL (JBuiltin b)])"
    by (simp add: isAppInstalled_def split: probe_outcome.splits)
  with assms show ?thesis
    by (simp add: inherited_not_registered)
qed

theorem isAppInstalled_inherited_name_witness:
  "''toString'' \<in> set object_prototype_keys \<and> ''toString'' \<notin> set apps
   \<and> isAppInstalled trusting_host ''toString'' = (Resolved True, [CanOpenURL (JBuiltin ''toString'')])"
proof -
  have inherited: "''toString'' \<in> set object_prototype_keys"
    by (simp add: object_prototype_keys_def)
  from inherited isAppInstalled_inherited_name [OF inherited, of trusting_host]
  show ?thesis
    by (simp add: trusting_host_def)
qed

section \<open>Choosing an app\<close>

lemma probe_loop_registered:
  "set keys \<subseteq> set apps \<Longrightarrow>
   probe_loop P keys availableApps tr =
     (Some (availableApps @ filter (probes_available P) keys),
      tr @ map (\<lambda>app. CanOpenURL (js_get (prefixes (isIOS P)) app)) keys)"
proof (induction keys arbitrary: availableApps tr)
  case Nil
  then show ?case by simp
next
  case (Cons app keys)
  then have "app \<in> set apps" and "set keys \<subseteq> set apps" by simp_all
  then show ?case
    by (simp add: isAppInstalled_registered Cons.IH)
qed

lemma probe_loop_all:
  "probe_loop P (map fst (prefixes (isIOS P))) [] [] =
     (Some (filter (probes_available P) apps), probe_calls P)"
  by (simp add: keys_prefixes probe_loop_registered probe_calls_def)

lemma askAppChoice_probed:
  "askAppChoice P title message =
     prompt_choice P title message (filter (probes_available P) apps) (probe_calls P)"
  by (simp add: askAppChoice_def probe_loop_all)

lemma available_nonempty: "a \<in> set (filter (probes_available P) apps) \<Longrightarrow> a \<noteq> []"
  by (auto dest: apps_nonempty)

lemma demo_host_available:
  "filter (probes_available (demo_host ios installed k)) apps =
     filter (\<lambda>a. js_get (prefixes ios) a \<in> set installed) apps"
  by (rule filter_cong) (simp_all add: probes_available_registered)

lemma demo_host_none: "filter (probes_available (demo_host ios [] k)) apps = []"
  by (simp add: demo_host_available)

lemma demo_host_waze:
  "filter (probes_available (demo_host ios [JStr ''waze://''] k)) apps = [''waze'']"
  unfolding demo_host_available by (simp add: apps_def)

lemma demo_host_two_ios:
  "filter (probes_available (demo_host True [JStr ''http://maps.apple.com/'', JStr ''waze://''] k)) apps
   = [''apple-maps'', ''waze'']"
  unfolding demo_host_available by (simp add: apps_def)

lemma demo_host_two_android:
  "filter (probes_available (demo_host False [JStr ''applemaps://'', JStr ''waze://''] k)) apps
   = [''apple-maps'', ''waze'']"
  unfolding demo_host_available by (simp add: apps_def)

text \<open>
  C3. When no app probes as available, \<open>askAppChoice\<close> resolves \<open>null\<close>; when exactly one
  does, it resolves that app. In both cases the only calls to the host are the ten probes:
  no action sheet and no alert is shown.
\<close>

theorem askAppChoice_at_most_one:
  "(filter (probes_available P) apps = [] \<longrightarrow>
      askAppChoice P title message = (Resolved JNull, probe_calls P))
   \<and> (filter (probes_available P) apps = [a] \<longrightarrow>
      askAppChoice P title message = (Resolved (JStr a), probe_calls P))"
proof (intro conjI impI)
  assume "filter (probes_available P) apps = []"
  then show "askAppChoice P title message = (Resolved JNull, probe_calls P)"
    by (simp add: askAppChoice_probed prompt_choice_def array_get_def js_or_def)
next
  assume one: "filter (probes_available P) apps = [a]"
  then have "a \<in> set (filter (probes_available P) apps)" by simp
  then have "a \<noteq> []" by (rule available_nonempty)
  with one show "askAppChoice P title message = (Resolved (JStr a), probe_calls P)"
    by (simp add: askAppChoice_probed prompt_choice_def array_get_def js_or_def)
qed

theorem askAppChoice_at_most_one_witness:
  "filter (probes_available (demo_host False [] 0)) apps = []
   \<and> askAppChoice (demo_host False [] 0) ''Open in Maps'' ''Which app?''
       = (Resolved JNull, probe_calls (demo_host False [] 0))
   \<and> filter (probes_available (demo_host False [JStr ''waze://''] 0)) apps = [''waze'']
   \<and> askAppChoice (demo_host False [JStr ''waze://''] 0) ''Open in Maps'' ''Which app?''
       = (Resolved (JStr ''waze''), probe_calls (demo_host False [JStr ''waze://''] 0))"
  using demo_host_none [of False 0] demo_host_waze [of False 0]
    askAppChoice_at_most_one [where P = "demo_host False [] 0" and title = "''Open in Maps''"
      and message = "''Which app?''"]
    askAppChoice_at_most_one [where P = "demo_host False [JStr ''waze://''] 0" and a = "''waze''"
      and title = "''Open in Maps''" and message = "''Which app?''"]
  by blast

text \<open>
  C4. When two or more apps probe as available, \<open>askAppChoice\<close> shows one prompt after
  the ten probes: on iOS an action sheet whose options are the titles of the available
  apps, in the order of the table, followed by \<open>Cancel\<close>, with the cancel index on
  \<open>Cancel\<close>; elsewhere an alert with one button per available app, in the same order,
  followed by a \<open>Cancel\<close> button. Choosing option \<open>k\<close> before \<open>Cancel\<close> resolves the
  \<open>k\<close>-th available app; choosing \<open>Cancel\<close>, or dismissing the alert, resolves \<open>null\<close>.
\<close>

theorem askAppChoice_prompt:
  assumes "availableApps = filter (probes_available P) apps" and "2 \<le> length availableApps"
    and "sheet = map (js_get titles) availableApps @ [JStr ''Cancel'']"
    and "buttons = map (\<lambda>app. AlertButton (js_get titles app) (JStr app) None) availableApps
                   @ [AlertButton (JStr ''Cancel'') JNull (Some ''cancel'')]"
  shows "(isIOS P \<longrightarrow>
            snd (askAppChoice P title message) =
              probe_calls P @ [ShowActionSheet title message sheet (length availableApps)]
            \<and> (\<forall>k. showActionSheetWithOptions P title message sheet (length availableApps) = Some k \<longrightarrow>
                   (k = length availableApps \<longrightarrow> fst (askAppChoice P title message) = Resolved JNull)
                   \<and> (k < length availableApps \<longrightarrow>
                        fst (askAppChoice P title message) = Resolved (JStr (availableApps ! k)))))
         \<and> (\<not> isIOS P \<longrightarrow>
            snd (askAppChoice P title message) = probe_calls P @ [AlertAlert title message buttons]
            \<and> (\<forall>k. alert P title message buttons = ButtonPressed k \<longrightarrow>
                   (k = length availableApps \<longrightarrow> fst (askAppChoice P title message) = Resolved JNull)
                   \<and> (k < length availableApps \<longrightarrow>
                        fst (askAppChoice P title message) = Resolved (JStr (availableApps ! k))))
            \<and> (alert P title message buttons = AlertDismissed \<longrightarrow>
                   fst (askAppChoice P title message) = Resolved JNull))"
proof (cases "isIOS P")
  case True
  with assms show ?thesis
    by (auto simp: askAppChoice_probed prompt_choice_def array_get_def Let_def split: option.splits)
next
  case False
  with assms show ?thesis
    by (auto simp: askAppChoice_probed prompt_choice_def Let_def nth_append
             split: alert_response.splits)
qed

lemma trusting_host_available: "filter (probes_available trusting_host) apps = apps"
proof -
  have "filter (probes_available trusting_host) apps = filter (\<lambda>a. True) apps"
    by (rule filter_cong) (simp_all add: probes_available_registered trusting_host_def)
  then show ?thesis by simp
qed

theorem askAppChoice_prompt_witness:
  "askAppChoice (demo_host True [JStr ''http://maps.apple.com/'', JStr ''waze://''] 1)
       ''Open in Maps'' ''Which app?''
     = (Resolved (JStr ''waze''),
        probe_calls (demo_host True [JStr ''http://maps.apple.com/'', JStr ''waze://''] 1)
        @ [ShowActionSheet ''Open in Maps'' ''Which app?''
             [JStr ''Apple Maps'', JStr ''Waze'', JStr ''Cancel''] 2])
   \<and> fst (askAppChoice (demo_host True [JStr ''http://maps.apple.com/'', JStr ''waze://''] 2)
            ''Open in Maps'' ''Which app?'') = Resolved JNull
   \<and> askAppChoice (demo_host False [JStr ''applemaps://'', JStr ''waze://''] 2)
       ''Open in Maps'' ''Which app?''
     = (Resolved JNull,
        probe_calls (demo_host False [JStr ''applemaps://'', JStr ''waze://''] 2)
        @ [AlertAlert ''Open in Maps'' ''Which app?''
             [AlertButton (JStr ''Apple Maps'') (JStr ''apple-maps'') None,
              AlertButton (JStr ''Waze'') (JStr ''waze'') None,
              AlertButton (JStr ''Cancel'') JNull (Some ''cancel'')]])
   \<and> fst (askAppChoice (demo_host False [JStr ''applemaps://'', JStr ''waze://''] 0)
            ''Open in Maps'' ''Which app?'') = Resolved (JStr ''apple-maps'')
   \<and> fst (askAppChoice trusting_host ''Open in Maps'' ''Which app?'') = Resolved JNull"
proof -
  let ?ios = "\<lambda>k. demo_host True [JStr ''http://maps.apple.com/'', JStr ''waze://''] k"
  let ?android = "\<lambda>k. demo_host False [JStr ''applemaps://'', JStr ''waze://''] k"
  let ?sheet = "[JStr ''Apple Maps'', JStr ''Waze'', JStr ''Cancel'']"
  let ?buttons = "[AlertButton (JStr ''Apple Maps'') (JStr ''apple-maps'') None,
                   AlertButton (JStr ''Waze'') (JStr ''waze'') None,
                   AlertButton (JStr ''Cancel'') JNull (Some ''cancel'')]"
  have ios: "[''apple-maps'', ''waze''] = filter (probes_available (?ios k)) apps" for k
    by (simp add: demo_host_two_ios)
  have android: "[''apple-maps'', ''waze''] = filter (probes_available (?android k)) apps" for k
    by (simp add: demo_host_two_android)
  have all: "apps = filter (probes_available trusting_host) apps"
    by (simp add: trusting_host_available)
  have two: "2 \<le> length [''apple-maps'', ''waze'']"
    by simp
  have ten: "2 \<le> length apps"
    by (simp add: apps_def)
  have sheet: "?sheet = map (js_get titles) [''apple-maps'', ''waze''] @ [JStr ''Cancel'']"
    by simp
  have buttons: "?buttons =
      map (\<lambda>app. AlertButton (js_get titles app) (JStr app) None) [''apple-maps'', ''waze'']
      @ [AlertButton (JStr ''Cancel'') JNull (Some ''cancel'')]"
    by simp
  from askAppChoice_prompt [OF ios two sheet buttons, of 1 "''Open in Maps''" "''Which app?''"]
  have "askAppChoice (?ios 1) ''Open in Maps'' ''Which app?''
     = (Resolved (JStr ''waze''),
        probe_calls (?ios 1) @ [ShowActionSheet ''Open in Maps'' ''Which app?'' ?sheet 2])"
    by (simp add: prod_eq_iff)
  moreover
  from askAppChoice_prompt [OF ios two sheet buttons, of 2 "''Open in Maps''" "''Which app?''"]
  have "fst (askAppChoice (?ios 2) ''Open in Maps'' ''Which app?'') = Resolved JNull"
    by simp
  moreover
  from askAppChoice_prompt [OF android two sheet buttons, of 2 "''Open in Maps''" "''Which app?''"]
  have "askAppChoice (?android 2) ''Open in Maps'' ''Which app?''
     = (Resolved JNull, probe_calls (?android 2) @ [AlertAlert ''Open in Maps'' ''Which app?'' ?buttons])"
    by (simp add: prod_eq_iff)
  moreover
  from askAppChoice_prompt [OF android two sheet buttons, of 0 "''Open in Maps''" "''Which app?''"]
  have "fst (askAppChoice (?android 0) ''Open in Maps'' ''Which app?'') = Resolved (JStr ''apple-maps'')"
    by simp
  moreover
  from askAppChoice_prompt [OF all ten refl refl, of "''Open in Maps''" "''Which app?''"]
  have "fst (askAppChoice trusting_host ''Open in Maps'' ''Which app?'') = Resolved JNull"
    by (simp add: trusting_host_def)
  ultimately show ?thesis
    by blast
qed


section \<open>The tables as a registry\<close>

text \<open>
  C8, as stated, asks for an \<open>InvalidProviderError\<close> on an id outside the ten. The code
  has no such error: the tables are plain objects, reading them with an unknown key is an
  ordinary property read that yields \<open>undefined\<close>, and \<open>isAppInstalled\<close> resolves \<open>false\<close>
  for it.
\<close>

theorem registry_lookup_counterexample:
  "js_get (prefixes False) ''bogus-app'' = JUndefined
   \<and> js_get (prefixes True) ''bogus-app'' = JUndefined
   \<and> js_get titles ''bogus-app'' = JUndefined
   \<and> isAppInstalled trusting_host ''bogus-app'' = (Resolved False, [])"
proof -
  have "\<not> js_in ''bogus-app'' (prefixes ios)" for ios
    by (simp add: js_in_def prefixes_def object_prototype_keys_def)
  then show ?thesis
    by (simp add: not_in_table isAppInstalled_not_in_table)
qed

text \<open>
  C8, amended. On both platforms every registered id has a non-empty string as prefix and
  as title. Reading the tables with any other key raises nothing: a key inherited from
  \<open>Object.prototype\<close> yields the inherited built-in, and a key that is no property of the
  table yields \<open>undefined\<close>, for which \<open>isAppInstalled\<close> resolves \<open>false\<close> without probing.
\<close>

theorem registry_lookup:
  "(a \<in> set apps \<longrightarrow>
      (\<exists>p t. js_get (prefixes ios) a = JStr p \<and> p \<noteq> [] \<and> js_get titles a = JStr t \<and> t \<noteq> []))
   \<and> (b \<in> set object_prototype_keys \<longrightarrow>
        js_get (prefixes ios) b = JBuiltin b \<and> js_get titles b = JBuiltin b)
   \<and> (\<not> js_in c (prefixes (isIOS P)) \<longrightarrow>
        js_get (prefixes (isIOS P)) c = JUndefined \<and> js_get titles c = JUndefined
        \<and> isAppInstalled P c = (Resolved False, []))"
proof (intro conjI impI)
  assume "a \<in> set apps"
  then show "\<exists>p t. js_get (prefixes ios) a = JStr p \<and> p \<noteq> [] \<and> js_get titles a = JStr t \<and> t \<noteq> []"
    by (auto simp: apps_def)
next
  assume "b \<in> set object_prototype_keys"
  then show "js_get (prefixes ios) b = JBuiltin b" and "js_get titles b = JBuiltin b"
    by (simp_all add: inherited_lookup)
next
  assume "\<not> js_in c (prefixes (isIOS P))"
  then show "js_get (prefixes (isIOS P)) c = JUndefined" and "js_get titles c = JUndefined"
    and "isAppInstalled P c = (Resolved False, [])"
    by (simp_all add: not_in_table isAppInstalled_not_in_table)
qed

theorem registry_lookup_witness:
  "''waze'' \<in> set apps \<and> js_get (prefixes True) ''waze'' = JStr ''waze://''
   \<and> js_get titles ''waze'' = JStr ''Waze''
   \<and> ''valueOf'' \<in> set object_prototype_keys \<and> js_get (prefixes True) ''valueOf'' = JBuiltin ''valueOf''
   \<and> \<not> js_in ''bogus-app'' (prefixes (isIOS (demo_host True [] 0)))
   \<and> js_get (prefixes (isIOS (demo_host True [] 0))) ''bogus-app'' = JUndefined
   \<and> isAppInstalled (demo_host True [] 0) ''bogus-app'' = (Resolved False, [])"
proof -
  have a: "''waze'' \<in> set apps"
    by (simp add: apps_def)
  have b: "''valueOf'' \<in> set object_prototype_keys"
    by (simp add: object_prototype_keys_def)
  have c: "\<not> js_in ''bogus-app'' (prefixes (isIOS (demo_host True [] 0)))"
    by (simp add: js_in_def prefixes_def object_prototype_keys_def)
  from a b c
    registry_lookup [where a = "''waze''" and ios = True and b = "''valueOf''"
      and c = "''bogus-app''" and P = "demo_host True [] 0"]
  show ?thesis by simp
qed

section \<open>Falsy optional fields\<close>

text \<open>
  C9. Let the \<open>title\<close> key, or the \<open>address\<close> key, be present with a falsy value
  (\<open>0\<close>, \<open>false\<close>, \<open>null\<close>, \<open>undefined\<close>, \<open>NaN\<close> or the empty string). Then the type check of that
  field does not raise, validation ends exactly as it does without the key (so it succeeds
  whenever the rest of the object is valid), the field is normalised to \<open>null\<close>, as it is
  when the key is absent, and \<open>showLocation\<close> as a whole behaves as if the key were absent.
\<close>

theorem falsy_title_or_address:
  assumes "k = ''title'' \<or> k = ''address''" and "map_of ps k = Some v" and "\<not> truthy v"
  shows "validate (JObject ps) \<noteq> Some (MapsException (''Option `'' @ k @ ''` should be of type `string`.''))
         \<and> validate (JObject ps) = validate (JObject (AList.delete k ps))
         \<and> (validate (JObject (AList.delete k ps)) = None \<longrightarrow> validate (JObject ps) = None)
         \<and> or_null (js_get ps k) = JNull
         \<and> or_null (js_get (AList.delete k ps) k) = JNull
         \<and> showLocation P (JObject ps) = showLocation P (JObject (AList.delete k ps))"
proof -
  from assms(2,3) have falsy: "\<not> truthy (js_get ps k)"
    by (simp add: js_get_def)
  from assms(1) have absent: "\<not> truthy (js_get (AList.delete k ps) k)"
    by (auto simp: js_get_delete)
  from assms(1) falsy
  have "validate (JObject ps) \<noteq> Some (MapsException (''Option `'' @ k @ ''` should be of type `string`.''))"
    by (auto simp: validate_def)
  moreover from assms(1) falsy
  have "validate (JObject ps) = validate (JObject (AList.delete k ps))"
    by (auto simp: validate_falsy_title validate_falsy_address)
  moreover from assms(1) falsy
  have "showLocation P (JObject ps) = showLocation P (JObject (AList.delete k ps))"
    by (auto simp: showLocation_falsy_title showLocation_falsy_address)
  ultimately show ?thesis
    using falsy absent by (simp add: or_null_falsy)
qed

text \<open>The request \<open>{latitude: 1, longitude: 2, title: 0, app: 'waze'}\<close>.\<close>

theorem falsy_title_or_address_witness:
  "map_of (request (JNum (Dec 1 0)) (JNum (Dec 2 0)) (JNum (Dec 0 0)) (JStr ''waze'')) ''title''
     = Some (JNum (Dec 0 0))
   \<and> \<not> truthy (JNum (Dec 0 0))
   \<and> validate (JObject (request (JNum (Dec 1 0)) (JNum (Dec 2 0)) (JNum (Dec 0 0)) (JStr ''waze''))) = None
   \<and> or_null (js_get (request (JNum (Dec 1 0)) (JNum (Dec 2 0)) (JNum (Dec 0 0)) (JStr ''waze'')) ''title'')
       = JNull
   \<and> showLocation trusting_host
        (JObject (request (JNum (Dec 1 0)) (JNum (Dec 2 0)) (JNum (Dec 0 0)) (JStr ''waze'')))
     = showLocation trusting_host
        (JObject [(''latitude'', JNum (Dec 1 0)), (''longitude'', JNum (Dec 2 0)), (''app'', JStr ''waze'')])"
proof -
  let ?r = "request (JNum (Dec 1 0)) (JNum (Dec 2 0)) (JNum (Dec 0 0)) (JStr ''waze'')"
  have present: "map_of ?r ''title'' = Some (JNum (Dec 0 0))"
    by (simp add: request_def)
  have falsy: "\<not> truthy (JNum (Dec 0 0))"
    by simp
  have valid: "validate (JObject ?r) = None"
    by (rule validate_request) (simp_all add: apps_def)
  have absent: "AList.delete ''title'' ?r =
      [(''latitude'', JNum (Dec 1 0)), (''longitude'', JNum (Dec 2 0)), (''app'', JStr ''waze'')]"
    by (simp add: request_def)
  from present falsy valid
    falsy_title_or_address [where k = "''title''" and ps = ?r and v = "JNum (Dec 0 0)"
      and P = trusting_host]
  show ?thesis
    unfolding absent by simp
qed

section \<open>Coordinates that are not numbers\<close>








end
